theory Spec2Isabelle
  imports Complex_Main "HOL-Library.Sublist"
begin

section \<open>Vehicle classifier API: shared data model\<close>

text \<open>
  The repository holds two FastAPI applications. \<^verbatim>\<open>src/app/main.py\<close> (with
  \<^verbatim>\<open>src/app/utils.py\<close>) serves \<^verbatim>\<open>/predict\<close> and \<^verbatim>\<open>/batch_predict\<close> with an arg-max
  decision; \<^verbatim>\<open>src/scripts/app.py\<close> serves \<^verbatim>\<open>/predict\<close>, \<^verbatim>\<open>/correct\<close> and \<^verbatim>\<open>/stats\<close> with a
  softmax decision and the correction store. Functions of the first file that share a
  name with one of the second carry the suffix \<open>_main\<close>, those of the second the suffix
  \<open>_scripts\<close>.

  Python exceptions are values: a function that may raise returns \<open>exn + 'a\<close>, with
  \<open>Inl\<close> the exception. \<open>HTTPException status detail cause\<close> is FastAPI's
  \<^verbatim>\<open>HTTPException(status_code, detail)\<close>; where the detail is an f-string ending in
  \<^verbatim>\<open>{str(e)}\<close>, \<open>cause\<close> holds that \<open>e\<close>. A response field \<^verbatim>\<open>"error": str(e)\<close> is modelled
  by \<open>e\<close> itself.
\<close>

datatype exn =
    HTTPException nat string "exn option"
  | FileNotFoundError string
  | FileExistsError string
  | NotADirectoryError string
  | PermissionError string
  | AttributeError string
  | IndexError string
  | ValueError string
  | ExternalError string

datatype image = Image string nat nat "nat list"

datatype tensor = Tensor "nat list" "real list"

subsection \<open>Floating-point scores\<close>

text \<open>
  A score is a floating-point number as the model, numpy and Python hand it on: a finite
  value, an infinity or NaN. On finite values the arithmetic below is that of the real
  numbers, so the rounding error of float32 and float64 is not represented; on the
  other values it follows IEEE 754, which numpy applies without raising.
\<close>

datatype score = Finite real | PosInf | NegInf | NaN

fun is_finite :: "score \<Rightarrow> bool" where
  "is_finite (Finite x) = True"
| "is_finite s = False"

text \<open>The order of two scores; no comparison with NaN holds.\<close>

fun score_le :: "score \<Rightarrow> score \<Rightarrow> bool" where
  "score_le NaN b = False"
| "score_le a NaN = False"
| "score_le NegInf b = True"
| "score_le a PosInf = True"
| "score_le (Finite x) (Finite y) = (x \<le> y)"
| "score_le a b = False"

text \<open>The maximum that \<^verbatim>\<open>np.max\<close> folds with: NaN wins.\<close>

definition score_max :: "score \<Rightarrow> score \<Rightarrow> score" where
  "score_max a b = (if a = NaN \<or> b = NaN then NaN else if score_le a b then b else a)"

fun score_sub :: "score \<Rightarrow> score \<Rightarrow> score" where
  "score_sub NaN b = NaN"
| "score_sub a NaN = NaN"
| "score_sub (Finite x) (Finite y) = Finite (x - y)"
| "score_sub PosInf PosInf = NaN"
| "score_sub NegInf NegInf = NaN"
| "score_sub PosInf b = PosInf"
| "score_sub NegInf b = NegInf"
| "score_sub (Finite x) PosInf = NegInf"
| "score_sub (Finite x) NegInf = PosInf"

fun score_add :: "score \<Rightarrow> score \<Rightarrow> score" where
  "score_add NaN b = NaN"
| "score_add a NaN = NaN"
| "score_add (Finite x) (Finite y) = Finite (x + y)"
| "score_add PosInf NegInf = NaN"
| "score_add NegInf PosInf = NaN"
| "score_add PosInf b = PosInf"
| "score_add NegInf b = NegInf"
| "score_add (Finite x) b = b"

fun score_mul :: "score \<Rightarrow> score \<Rightarrow> score" where
  "score_mul NaN b = NaN"
| "score_mul a NaN = NaN"
| "score_mul (Finite x) (Finite y) = Finite (x * y)"
| "score_mul (Finite x) PosInf = (if x = 0 then NaN else if 0 < x then PosInf else NegInf)"
| "score_mul (Finite x) NegInf = (if x = 0 then NaN else if 0 < x then NegInf else PosInf)"
| "score_mul PosInf (Finite y) = (if y = 0 then NaN else if 0 < y then PosInf else NegInf)"
| "score_mul NegInf (Finite y) = (if y = 0 then NaN else if 0 < y then NegInf else PosInf)"
| "score_mul PosInf PosInf = PosInf"
| "score_mul NegInf NegInf = PosInf"
| "score_mul PosInf NegInf = NegInf"
| "score_mul NegInf PosInf = NegInf"

fun score_div :: "score \<Rightarrow> score \<Rightarrow> score" where
  "score_div NaN b = NaN"
| "score_div a NaN = NaN"
| "score_div (Finite x) (Finite y) =
     (if y \<noteq> 0 then Finite (x / y)
      else if x = 0 then NaN else if 0 < x then PosInf else NegInf)"
| "score_div (Finite x) b = Finite 0"
| "score_div PosInf (Finite y) = (if 0 \<le> y then PosInf else NegInf)"
| "score_div NegInf (Finite y) = (if 0 \<le> y then NegInf else PosInf)"
| "score_div a b = NaN"

fun score_exp :: "score \<Rightarrow> score" where
  "score_exp (Finite x) = Finite (exp x)"
| "score_exp PosInf = PosInf"
| "score_exp NegInf = Finite 0"
| "score_exp NaN = NaN"

text \<open>\<^verbatim>\<open>ndarray.sum()\<close> of a flat array.\<close>

definition score_sum :: "score list \<Rightarrow> score" where
  "score_sum xs = foldr score_add xs (Finite 0)"

text \<open>
  An \<^verbatim>\<open>onnxruntime.InferenceSession\<close>: the names of its inputs and outputs, and \<open>run\<close>,
  which maps the input name and the input tensor to \<^verbatim>\<open>outputs[0]\<close>, a two-dimensional
  array of scores (one row per batch element), or raises.
\<close>

record session =
  get_inputs :: "string list"
  get_outputs :: "string list"
  run :: "string \<Rightarrow> tensor \<Rightarrow> exn + score list list"

text \<open>A FastAPI \<^verbatim>\<open>UploadFile\<close>.\<close>

record upload =
  filename :: string
  content_type :: "string option"
  contents :: string

text \<open>
  What \<^verbatim>\<open>os.path.exists\<close> finds at a path besides a directory that can be listed: a
  regular file, or a directory that the process may not read.
\<close>

datatype path_kind = RegularFile | UnreadableDir

text \<open>
  The external libraries and the process environment, taken as parameters:
  \<open>image_open\<close> is \<^verbatim>\<open>Image.open(BytesIO(contents)).convert("RGB")\<close>; \<open>to_tensor\<close> is the
  resize, scaling by 255, transposition and batch dimension done with PIL and numpy;
  \<open>image_save\<close> is the encoding and writing step of \<^verbatim>\<open>image.save(path)\<close> and returns the
  exception it raises, if any; \<open>path_exists\<close> is \<^verbatim>\<open>os.path.exists\<close> on a model path;
  \<open>InferenceSession\<close> is onnxruntime's loader; \<open>env_MODEL_PATH\<close> is the environment
  variable of that name; \<open>other_paths\<close> tells which paths of the correction store are
  regular files or unreadable directories; \<open>mkdir_error\<close> is the error of the operating
  system, if any, when a missing directory is created (no permission, read-only file
  system).
\<close>

record extern =
  image_open :: "string \<Rightarrow> exn + image"
  to_tensor :: "nat \<times> nat \<Rightarrow> image \<Rightarrow> exn + tensor"
  image_save :: "image \<Rightarrow> string \<Rightarrow> exn option"
  path_exists :: "string \<Rightarrow> bool"
  InferenceSession :: "string \<Rightarrow> exn + session"
  env_MODEL_PATH :: "string option"
  other_paths :: "string \<Rightarrow> path_kind option"
  mkdir_error :: "string \<Rightarrow> exn option"

datatype level = INFO | ERROR | STDOUT | STDERR

type_synonym log_entry = "level \<times> string \<times> exn option"

subsection \<open>Python and numpy primitives\<close>

definition py_index :: "'a list \<Rightarrow> nat \<Rightarrow> exn + 'a" where
  "py_index xs i =
     (if i < length xs then Inr (xs ! i) else Inl (IndexError ''list index out of range''))"

text \<open>\<^verbatim>\<open>round(x, ndigits)\<close> of a finite \<open>x\<close>: to the nearest multiple of \<open>10 ^ - ndigits\<close>,
  ties to even.\<close>

definition py_round :: "real \<Rightarrow> nat \<Rightarrow> real" where
  "py_round x ndigits =
     (let y = x * 10 ^ ndigits;
          f = \<lfloor>y\<rfloor>;
          d = y - of_int f;
          q = (if d < 1 / 2 then f else if 1 / 2 < d then f + 1
               else if even f then f else f + 1)
      in of_int q / 10 ^ ndigits)"

text \<open>\<^verbatim>\<open>round(x, ndigits)\<close> of a float: infinities and NaN round to themselves.\<close>

fun round_score :: "score \<Rightarrow> nat \<Rightarrow> score" where
  "round_score (Finite x) ndigits = Finite (py_round x ndigits)"
| "round_score s ndigits = s"

fun first_index :: "'a \<Rightarrow> 'a list \<Rightarrow> nat" where
  "first_index v [] = 0"
| "first_index v (x # xs) = (if x = v then 0 else Suc (first_index v xs))"

text \<open>
  \<^verbatim>\<open>np.max\<close> and \<^verbatim>\<open>np.argmax\<close> of a flat array. Both raise on an empty one. \<^verbatim>\<open>np.max\<close> is NaN
  as soon as one element is; \<^verbatim>\<open>np.argmax\<close> returns the index of the first NaN if there is
  one, and the first index of the maximum otherwise.
\<close>

fun np_max :: "score list \<Rightarrow> exn + score" where
  "np_max [] = Inl (ValueError ''zero-size array to reduction operation maximum which has no identity'')"
| "np_max (x # xs) = Inr (fold score_max xs x)"

fun np_argmax :: "score list \<Rightarrow> exn + nat" where
  "np_argmax [] = Inl (ValueError ''attempt to get argmax of an empty sequence'')"
| "np_argmax (x # xs) =
     (if NaN \<in> set (x # xs) then Inr (first_index NaN (x # xs))
      else Inr (first_index (fold score_max xs x) (x # xs)))"

text \<open>
  Starlette's \<^verbatim>\<open>JSONResponse\<close> renders its content in the constructor with
  \<^verbatim>\<open>json.dumps(..., allow_nan=False)\<close>, which raises this error on a float that is not
  finite.
\<close>

definition json_error :: exn where
  "json_error = ValueError ''Out of range float values are not JSON compliant''"

section \<open>src/app/utils.py\<close>

definition preprocess_image :: "extern \<Rightarrow> image \<Rightarrow> nat \<times> nat \<Rightarrow> exn + tensor" where
  "preprocess_image ext img input_size = to_tensor ext input_size img"

definition postprocess_output :: "score list list \<Rightarrow> exn + int \<times> score" where
  "postprocess_output output =
     (case np_argmax (concat output) of
        Inl e \<Rightarrow> Inl e
      | Inr pred_index \<Rightarrow>
          (case np_max (concat output) of
             Inl e \<Rightarrow> Inl e
           | Inr confidence \<Rightarrow> Inr (int pred_index, confidence)))"

definition get_class_name :: "int \<Rightarrow> string" where
  "get_class_name index =
     (let classes = [''front_vehicle'', ''rear_vehicle'']
      in if 0 \<le> index \<and> index < int (length classes) then classes ! nat index
         else ''unknown'')"

section \<open>src/app/main.py\<close>

definition MODEL_PATH :: string where
  "MODEL_PATH = ''app/model/classifier.onnx''"

definition MODEL_INPUT_SIZE :: "nat \<times> nat" where
  "MODEL_INPUT_SIZE = (224, 224)"

text \<open>
  The startup handler. It returns what it raises (\<open>Inl\<close>) or \<open>Inr ()\<close>, the new value of
  the global \<^verbatim>\<open>session\<close>, and the lines it logs. The \<^verbatim>\<open>except\<close> clause logs the failure
  and re-raises it.
\<close>

definition load_model_main ::
  "extern \<Rightarrow> session option \<Rightarrow> (exn + unit) \<times> session option \<times> log_entry list" where
  "load_model_main ext session0 =
     (if \<not> path_exists ext MODEL_PATH then
        (let e = FileNotFoundError (''Model file not found at '' @ MODEL_PATH)
         in (Inl e, session0, [(ERROR, ''Failed to load model: '', Some e)]))
      else
        (let l1 = (INFO, ''Loading ONNX model from '' @ MODEL_PATH, None)
         in case InferenceSession ext MODEL_PATH of
              Inl e \<Rightarrow> (Inl e, session0, [l1, (ERROR, ''Failed to load model: '', Some e)])
            | Inr s \<Rightarrow>
                (case py_index (get_inputs s) 0 of
                   Inl e \<Rightarrow> (Inl e, Some s, [l1, (ERROR, ''Failed to load model: '', Some e)])
                 | Inr input_name \<Rightarrow>
                     (case py_index (get_outputs s) 0 of
                        Inl e \<Rightarrow>
                          (Inl e, Some s, [l1, (ERROR, ''Failed to load model: '', Some e)])
                      | Inr output_name \<Rightarrow>
                          (Inr (), Some s,
                           [l1, (INFO, ''Model loaded successfully!'', None),
                            (INFO, ''Input: '' @ input_name, None),
                            (INFO, ''Output: '' @ output_name, None)])))))"

record prediction_main =
  label :: string
  class_index :: int
  confidence :: score

text \<open>
  The part of the \<^verbatim>\<open>try\<close> block that \<^verbatim>\<open>predict\<close> (lines 95 to 107) and the loop of
  \<^verbatim>\<open>batch_predict\<close> (lines 146 to 156) repeat word for word, up to the prediction dict:
  decode, preprocess, run the session, postprocess. The second component lists the
  tensors handed to \<^verbatim>\<open>session.run\<close>, that is, the inference calls made.
\<close>

definition classify :: "extern \<Rightarrow> session \<Rightarrow> upload \<Rightarrow> (exn + prediction_main) \<times> tensor list" where
  "classify ext s file =
     (case image_open ext (contents file) of
        Inl e \<Rightarrow> (Inl e, [])
      | Inr img \<Rightarrow>
          (case preprocess_image ext img MODEL_INPUT_SIZE of
             Inl e \<Rightarrow> (Inl e, [])
           | Inr input_data \<Rightarrow>
               (case py_index (get_inputs s) 0 of
                  Inl e \<Rightarrow> (Inl e, [])
                | Inr input_name \<Rightarrow>
                    (case py_index (get_outputs s) 0 of
                       Inl e \<Rightarrow> (Inl e, [])
                     | Inr output_name \<Rightarrow>
                         (case run s input_name input_data of
                            Inl e \<Rightarrow> (Inl e, [input_data])
                          | Inr output \<Rightarrow>
                              (case postprocess_output output of
                                 Inl e \<Rightarrow> (Inl e, [input_data])
                               | Inr (pred_index, conf) \<Rightarrow>
                                   (Inr \<lparr>label = get_class_name pred_index,
                                         class_index = pred_index,
                                         confidence = round_score conf 4\<rparr>,
                                    [input_data])))))))"

record predict_response_main =
  pm_success :: bool
  pm_prediction :: prediction_main
  pm_filename :: string

text \<open>
  \<^verbatim>\<open>predict\<close> builds its \<^verbatim>\<open>JSONResponse\<close> inside the \<^verbatim>\<open>try\<close> block, so the error of a
  confidence that is not finite is caught there and becomes the status-500 exception.
\<close>

definition predict_main ::
  "extern \<Rightarrow> session option \<Rightarrow> upload \<Rightarrow> exn + predict_response_main" where
  "predict_main ext sess file =
     (case sess of
        None \<Rightarrow> Inl (HTTPException 503 ''Model not loaded'' None)
      | Some s \<Rightarrow>
          (case content_type file of
             None \<Rightarrow> Inl (AttributeError ''NoneType object has no attribute startswith'')
           | Some ct \<Rightarrow>
               if \<not> prefix ''image/'' ct then
                 Inl (HTTPException 400 ''Invalid file type. Please upload an image file.'' None)
               else
                 (case fst (classify ext s file) of
                    Inl e \<Rightarrow> Inl (HTTPException 500 ''Prediction failed: '' (Some e))
                  | Inr p \<Rightarrow>
                      if is_finite (confidence p) then
                        Inr \<lparr>pm_success = True, pm_prediction = p,
                             pm_filename = filename file\<rparr>
                      else Inl (HTTPException 500 ''Prediction failed: '' (Some json_error)))))"

text \<open>
  One entry of \<^verbatim>\<open>results\<close>: \<open>Success\<close> is \<^verbatim>\<open>{"filename", "success": True, "prediction"}\<close>
  and \<open>Failure\<close> is \<^verbatim>\<open>{"filename", "success": False, "error"}\<close>.
\<close>

datatype outcome = Success string prediction_main | Failure string exn

fun outcome_filename :: "outcome \<Rightarrow> string" where
  "outcome_filename (Success f p) = f"
| "outcome_filename (Failure f e) = f"

fun outcome_success :: "outcome \<Rightarrow> bool" where
  "outcome_success (Success f p) = True"
| "outcome_success (Failure f e) = False"

text \<open>Whether \<^verbatim>\<open>json.dumps\<close> accepts the entry: its only float is the confidence.\<close>

fun outcome_renders :: "outcome \<Rightarrow> bool" where
  "outcome_renders (Success f p) = is_finite (confidence p)"
| "outcome_renders (Failure f e) = True"

record batch_response =
  b_success :: bool
  total_images :: nat
  results :: "outcome list"

text \<open>The \<^verbatim>\<open>for file in files\<close> loop, with \<^verbatim>\<open>results\<close> and the inference calls made so far.\<close>

fun batch_loop ::
  "extern \<Rightarrow> session \<Rightarrow> upload list \<Rightarrow> outcome list \<Rightarrow> tensor list \<Rightarrow> outcome list \<times> tensor list" where
  "batch_loop ext s [] res calls = (res, calls)"
| "batch_loop ext s (file # files) res calls =
     (case classify ext s file of
        (Inr p, c) \<Rightarrow> batch_loop ext s files (res @ [Success (filename file) p]) (calls @ c)
      | (Inl e, c) \<Rightarrow> batch_loop ext s files (res @ [Failure (filename file) e]) (calls @ c))"

text \<open>
  \<^verbatim>\<open>batch_predict\<close> builds its \<^verbatim>\<open>JSONResponse\<close> after the loop and outside every \<^verbatim>\<open>try\<close>
  (lines 175 to 179): when an entry does not render, the error leaves the handler.
\<close>

definition batch_predict ::
  "extern \<Rightarrow> session option \<Rightarrow> upload list \<Rightarrow> (exn + batch_response) \<times> tensor list" where
  "batch_predict ext sess files =
     (case sess of
        None \<Rightarrow> (Inl (HTTPException 503 ''Model not loaded'' None), [])
      | Some s \<Rightarrow>
          if length files > 10 then
            (Inl (HTTPException 400 ''Maximum 10 images allowed per batch'' None), [])
          else
            (case batch_loop ext s files [] [] of
               (res, calls) \<Rightarrow>
                 if list_all outcome_renders res then
                   (Inr \<lparr>b_success = True, total_images = length files, results = res\<rparr>,
                    calls)
                 else (Inl json_error, calls)))"

section \<open>src/scripts/app.py\<close>

subsection \<open>Configuration\<close>

definition CONFIG_model_path :: "extern \<Rightarrow> string" where
  "CONFIG_model_path ext =
     (case env_MODEL_PATH ext of None \<Rightarrow> ''models/best.onnx'' | Some p \<Rightarrow> p)"

definition CONFIG_corrections_dir :: string where
  "CONFIG_corrections_dir = ''corrections''"

definition CONFIG_retrain_threshold :: nat where
  "CONFIG_retrain_threshold = 50"

definition CONFIG_img_size :: nat where
  "CONFIG_img_size = 224"

definition CONFIG_class_names :: "string list" where
  "CONFIG_class_names = [''front'', ''rear'']"

subsection \<open>Model runtime\<close>

text \<open>
  \<^verbatim>\<open>load_model\<close> returns its boolean, the new value of the global \<^verbatim>\<open>ort_session\<close> and what
  it prints (the traceback goes to the standard error stream); every exception is caught
  inside. The emoji of the printed lines are left out.
\<close>

definition load_model_scripts ::
  "extern \<Rightarrow> session option \<Rightarrow> bool \<times> session option \<times> log_entry list" where
  "load_model_scripts ext ort_session0 =
     (if \<not> path_exists ext (CONFIG_model_path ext) then
        (False, ort_session0, [(STDOUT, ''Model not found at '' @ CONFIG_model_path ext, None)])
      else
        (case InferenceSession ext (CONFIG_model_path ext) of
           Inl e \<Rightarrow>
             (False, ort_session0,
              [(STDOUT, ''Error loading model:'', Some e), (STDERR, ''Traceback'', Some e)])
         | Inr s \<Rightarrow> (True, Some s, [(STDOUT, ''Model loaded successfully!'', None)])))"

text \<open>The startup handler: the new \<^verbatim>\<open>ort_session\<close> and the printed lines. Nothing is raised.\<close>

definition startup_event :: "extern \<Rightarrow> session option \<Rightarrow> session option \<times> log_entry list" where
  "startup_event ext ort_session0 =
     (case load_model_scripts ext ort_session0 of
        (ok, ort_session1, out) \<Rightarrow>
          (ort_session1,
           [(STDOUT, ''Starting Vehicle Classification API'', None)] @ out @
           [(STDOUT, if ok then ''API ready for requests'' else ''API started but model not loaded'',
             None)]))"

definition preprocess_image_scripts :: "extern \<Rightarrow> image \<Rightarrow> exn + tensor" where
  "preprocess_image_scripts ext img = to_tensor ext (CONFIG_img_size, CONFIG_img_size) img"

subsection \<open>Softmax decision\<close>

record prediction =
  predicted_class :: string
  confidence_pct :: score
  probabilities :: "(string \<times> score) list"

text \<open>Lines 91 and 92, with \<open>m\<close> the value of \<^verbatim>\<open>np.max(logits)\<close>.\<close>

definition softmax_scores :: "score list \<Rightarrow> score \<Rightarrow> score list" where
  "softmax_scores logits m =
     (let exp_logits = map (\<lambda>l. score_exp (score_sub l m)) logits;
          total = score_sum exp_logits
      in map (\<lambda>e. score_div e total) exp_logits)"

text \<open>
  The same two lines on finite logits, over the real numbers. On a list of finite logits
  \<open>softmax_scores\<close> computes exactly these values (lemma \<open>softmax_scores_finite\<close> below); the
  float32 computation of numpy differs from them by its rounding error.
\<close>

definition softmax :: "real list \<Rightarrow> real \<Rightarrow> real list" where
  "softmax logits m =
     (let exp_logits = map (\<lambda>l. exp (l - m)) logits
      in map (\<lambda>e. e / sum_list exp_logits) exp_logits)"

text \<open>The dict comprehension \<^verbatim>\<open>{class_names[i]: round(float(probs[i]) * 100, 2) for i in ...}\<close>.\<close>

fun probabilities_of :: "string list \<Rightarrow> score list \<Rightarrow> nat list \<Rightarrow> exn + (string \<times> score) list" where
  "probabilities_of names probs [] = Inr []"
| "probabilities_of names probs (i # is) =
     (case py_index names i of
        Inl e \<Rightarrow> Inl e
      | Inr name \<Rightarrow>
          (if i < length probs then
             (case probabilities_of names probs is of
                Inl e \<Rightarrow> Inl e
              | Inr rest \<Rightarrow>
                  Inr ((name, round_score (score_mul (probs ! i) (Finite 100)) 2) # rest))
           else Inl (IndexError ''index is out of bounds for axis 0'')))"

text \<open>Lines 93 to 102 of \<^verbatim>\<open>predict_image\<close>: from the probabilities to the returned dict.\<close>

definition decision_from_probs :: "score list \<Rightarrow> exn + prediction" where
  "decision_from_probs probs =
     (case np_argmax probs of
        Inl e \<Rightarrow> Inl e
      | Inr pred_idx \<Rightarrow>
          (case py_index CONFIG_class_names pred_idx of
             Inl e \<Rightarrow> Inl e
           | Inr name \<Rightarrow>
               (case probabilities_of CONFIG_class_names probs
                       [0..<length CONFIG_class_names] of
                  Inl e \<Rightarrow> Inl e
                | Inr distribution \<Rightarrow>
                    Inr \<lparr>predicted_class = name,
                         confidence_pct =
                           round_score (score_mul (probs ! pred_idx) (Finite 100)) 2,
                         probabilities = distribution\<rparr>)))"

text \<open>Lines 91 to 102 of \<^verbatim>\<open>predict_image\<close>: from the logits to the returned dict.\<close>

definition softmax_decision :: "score list \<Rightarrow> exn + prediction" where
  "softmax_decision logits =
     (case np_max logits of
        Inl e \<Rightarrow> Inl e
      | Inr m \<Rightarrow> decision_from_probs (softmax_scores logits m))"

text \<open>The \<^verbatim>\<open>try\<close> block of \<^verbatim>\<open>predict_image\<close> (lines 87 to 102).\<close>

definition predict_image_body :: "extern \<Rightarrow> session \<Rightarrow> image \<Rightarrow> exn + prediction" where
  "predict_image_body ext s img =
     (case preprocess_image_scripts ext img of
        Inl e \<Rightarrow> Inl e
      | Inr input_tensor \<Rightarrow>
          (case py_index (get_inputs s) 0 of
             Inl e \<Rightarrow> Inl e
           | Inr input_name \<Rightarrow>
               (case run s input_name input_tensor of
                  Inl e \<Rightarrow> Inl e
                | Inr outputs0 \<Rightarrow>
                    (case py_index outputs0 0 of
                       Inl e \<Rightarrow> Inl e
                     | Inr logits \<Rightarrow> softmax_decision logits))))"

definition predict_image :: "extern \<Rightarrow> session option \<Rightarrow> image \<Rightarrow> exn + prediction" where
  "predict_image ext ort_session img =
     (case ort_session of
        None \<Rightarrow> Inl (HTTPException 500 ''Model not loaded'' None)
      | Some s \<Rightarrow>
          (case predict_image_body ext s img of
             Inl e \<Rightarrow> Inl (HTTPException 500 ''Prediction error: '' (Some e))
           | Inr r \<Rightarrow> Inr r))"

text \<open>
  The \<^verbatim>\<open>/predict\<close> endpoint. \<open>Inl\<close> is an \<^verbatim>\<open>HTTPException\<close> re-raised to the framework;
  \<open>PredictFailed\<close> is the status-500 JSON body \<^verbatim>\<open>{"success": False, "error", "message"}\<close>,
  which is also what a result with a float that is not finite ends in, since the
  \<^verbatim>\<open>JSONResponse\<close> is built inside the \<^verbatim>\<open>try\<close> block.
\<close>

datatype predict_response = PredictOk prediction string string | PredictFailed exn

fun is_HTTPException :: "exn \<Rightarrow> bool" where
  "is_HTTPException (HTTPException c d e) = True"
| "is_HTTPException _ = False"

definition prediction_renders :: "prediction \<Rightarrow> bool" where
  "prediction_renders q =
     (is_finite (confidence_pct q) \<and> list_all (\<lambda>np. is_finite (snd np)) (probabilities q))"

definition predict_scripts ::
  "extern \<Rightarrow> session option \<Rightarrow> string \<Rightarrow> upload \<Rightarrow> exn + predict_response" where
  "predict_scripts ext ort_session now file =
     (case content_type file of
        None \<Rightarrow> Inr (PredictFailed (AttributeError ''NoneType object has no attribute startswith''))
      | Some ct \<Rightarrow>
          if \<not> prefix ''image/'' ct then
            Inl (HTTPException 400 ''Invalid file type. Only images are accepted.'' None)
          else
            (case image_open ext (contents file) of
               Inl e \<Rightarrow> (if is_HTTPException e then Inl e else Inr (PredictFailed e))
             | Inr img \<Rightarrow>
                 (case predict_image ext ort_session img of
                    Inl e \<Rightarrow> (if is_HTTPException e then Inl e else Inr (PredictFailed e))
                  | Inr result \<Rightarrow>
                      if prediction_renders result then
                        Inr (PredictOk result (filename file) now)
                      else Inr (PredictFailed json_error))))"

subsection \<open>Correction store\<close>

text \<open>
  Durable storage: the entries of each directory that can be listed, by path. What else
  exists at a path, a regular file or an unreadable directory, is told by \<open>other_paths\<close>
  of the environment, and takes precedence. Uploaded file names are taken to be base
  names (no path separator), so that a saved file is an entry of its class directory.
\<close>

type_synonym filesystem = "string \<Rightarrow> string list option"

definition os_listdir :: "extern \<Rightarrow> filesystem \<Rightarrow> string \<Rightarrow> exn + string list" where
  "os_listdir ext fs p =
     (case other_paths ext p of
        Some RegularFile \<Rightarrow> Inl (NotADirectoryError p)
      | Some UnreadableDir \<Rightarrow> Inl (PermissionError p)
      | None \<Rightarrow> (case fs p of None \<Rightarrow> Inl (FileNotFoundError p) | Some entries \<Rightarrow> Inr entries))"

definition os_path_exists :: "extern \<Rightarrow> filesystem \<Rightarrow> string \<Rightarrow> bool" where
  "os_path_exists ext fs p = (other_paths ext p \<noteq> None \<or> fs p \<noteq> None)"

text \<open>
  \<^verbatim>\<open>os.makedirs(p, exist_ok=True)\<close>: it raises when \<open>p\<close> exists and is not a directory, and
  when a missing directory cannot be created.
\<close>

definition os_makedirs :: "extern \<Rightarrow> filesystem \<Rightarrow> string \<Rightarrow> exn + filesystem" where
  "os_makedirs ext fs p =
     (case other_paths ext p of
        Some RegularFile \<Rightarrow> Inl (FileExistsError p)
      | Some UnreadableDir \<Rightarrow> Inr fs
      | None \<Rightarrow>
          (case fs p of
             Some entries \<Rightarrow> Inr fs
           | None \<Rightarrow> (case mkdir_error ext p of Some e \<Rightarrow> Inl e | None \<Rightarrow> Inr (fs(p \<mapsto> [])))))"

text \<open>Writing a file creates its entry, or overwrites the file of that name.\<close>

definition write_file :: "filesystem \<Rightarrow> string \<Rightarrow> string \<Rightarrow> filesystem" where
  "write_file fs dir name =
     (case fs dir of None \<Rightarrow> fs | Some entries \<Rightarrow> fs(dir \<mapsto> List.insert name entries))"

record correction_ok =
  message :: string
  correction_count :: nat
  threshold :: nat
  retraining_triggered :: bool
  corrections_by_class :: "(string \<times> nat) list"

text \<open>
  \<open>CorrectionOk\<close> is the status-200 body with \<^verbatim>\<open>"success": True\<close>; \<open>CorrectionFailed e\<close> is
  the status-500 body \<^verbatim>\<open>{"success": False, "error": str(e), "message": "Correction failed"}\<close>
  that the \<^verbatim>\<open>except Exception\<close> clause returns for every exception of the \<^verbatim>\<open>try\<close> block,
  the \<^verbatim>\<open>HTTPException\<close> of the class check included. The second component is the
  storage after the call. The quotes that Python prints around the class names in the
  detail of that exception are left out.
\<close>

datatype correction_response = CorrectionOk correction_ok | CorrectionFailed exn

definition correct_prediction ::
  "extern \<Rightarrow> filesystem \<Rightarrow> string \<Rightarrow> upload \<Rightarrow> string \<Rightarrow> string \<Rightarrow>
   correction_response \<times> filesystem" where
  "correct_prediction ext fs now file predicted_cls correct_class =
     (if correct_class \<notin> set CONFIG_class_names then
        (CorrectionFailed (HTTPException 400 ''Invalid class. Must be one of: [front, rear]'' None),
         fs)
      else
        (case image_open ext (contents file) of
           Inl e \<Rightarrow> (CorrectionFailed e, fs)
         | Inr img \<Rightarrow>
             (let fname = now @ ''_'' @ filename file;
                  dir = CONFIG_corrections_dir @ ''/'' @ correct_class;
                  save_path = dir @ ''/'' @ fname
              in case os_makedirs ext fs dir of
                   Inl e \<Rightarrow> (CorrectionFailed e, fs)
                 | Inr fs1 \<Rightarrow>
                     (case image_save ext img save_path of
                        Some e \<Rightarrow> (CorrectionFailed e, fs1)
                      | None \<Rightarrow>
                          (let fs2 = write_file fs1 dir fname
                           in case os_listdir ext fs2 ''corrections/front'' of
                                Inl e \<Rightarrow> (CorrectionFailed e, fs2)
                              | Inr front \<Rightarrow>
                                  (case os_listdir ext fs2 ''corrections/rear'' of
                                     Inl e \<Rightarrow> (CorrectionFailed e, fs2)
                                   | Inr rear \<Rightarrow>
                                       (let corrections_front = length front;
                                            corrections_rear = length rear;
                                            total_corrections =
                                              corrections_front + corrections_rear;
                                            triggered =
                                              (total_corrections \<ge> CONFIG_retrain_threshold)
                                        in (CorrectionOk
                                              \<lparr>message =
                                                 ''Correction saved successfully'' @
                                                 (if triggered
                                                  then '' - Retraining will be triggered''
                                                  else []),
                                               correction_count = total_corrections,
                                               threshold = CONFIG_retrain_threshold,
                                               retraining_triggered = triggered,
                                               corrections_by_class =
                                                 [(''front'', corrections_front),
                                                  (''rear'', corrections_rear)]\<rparr>,
                                            fs2))))))))"

record stats =
  stats_correction_count :: nat
  stats_threshold :: nat
  progress_percentage :: real
  stats_corrections_by_class :: "(string \<times> nat) list"
  model_loaded :: bool
  model_path :: string

text \<open>\<^verbatim>\<open>len(os.listdir(p)) if os.path.exists(p) else 0\<close>\<close>

definition count_if_exists :: "extern \<Rightarrow> filesystem \<Rightarrow> string \<Rightarrow> exn + nat" where
  "count_if_exists ext fs p =
     (if os_path_exists ext fs p then
        (case os_listdir ext fs p of Inl e \<Rightarrow> Inl e | Inr entries \<Rightarrow> Inr (length entries))
      else Inr 0)"

text \<open>\<^verbatim>\<open>get_stats\<close> has no \<^verbatim>\<open>try\<close>: an exception of \<^verbatim>\<open>os.listdir\<close> leaves the handler.\<close>

definition get_stats :: "extern \<Rightarrow> filesystem \<Rightarrow> session option \<Rightarrow> exn + stats" where
  "get_stats ext fs ort_session =
     (case count_if_exists ext fs ''corrections/front'' of
        Inl e \<Rightarrow> Inl e
      | Inr corrections_front \<Rightarrow>
          (case count_if_exists ext fs ''corrections/rear'' of
             Inl e \<Rightarrow> Inl e
           | Inr corrections_rear \<Rightarrow>
               (let total_corrections = corrections_front + corrections_rear
                in Inr \<lparr>stats_correction_count = total_corrections,
                        stats_threshold = CONFIG_retrain_threshold,
                        progress_percentage =
                          py_round (real total_corrections / real CONFIG_retrain_threshold * 100) 2,
                        stats_corrections_by_class =
                          [(''front'', corrections_front), (''rear'', corrections_rear)],
                        model_loaded = (ort_session \<noteq> None),
                        model_path = CONFIG_model_path ext\<rparr>)))"

section \<open>A concrete environment\<close>

text \<open>
  An environment on which the endpoints can be evaluated: contents \<open>''bad''\<close> do not
  decode, every other upload decodes to a one-pixel image, the model file is absent, the
  correction store holds directories only and lets directories be created, and the
  session returns the given rows of scores for every input.
\<close>

definition ex_extern :: extern where
  "ex_extern =
     \<lparr>image_open =
        (\<lambda>c. if c = ''bad'' then Inl (ExternalError ''cannot identify image file'')
             else Inr (Image ''RGB'' 1 1 [0, 0, 0])),
      to_tensor = (\<lambda>sz img. Inr (Tensor [1, 3, fst sz, snd sz] [])),
      image_save = (\<lambda>img p. None),
      path_exists = (\<lambda>p. False),
      InferenceSession = (\<lambda>p. Inl (ExternalError ''invalid model file'')),
      env_MODEL_PATH = None,
      other_paths = (\<lambda>p. None),
      mkdir_error = (\<lambda>p. None)\<rparr>"

definition ex_session_scores :: "score list list \<Rightarrow> session" where
  "ex_session_scores rows =
     \<lparr>get_inputs = [''images''], get_outputs = [''output0''], run = (\<lambda>name t. Inr rows)\<rparr>"

text \<open>The session whose scores are the given finite values.\<close>

definition ex_session :: "real list list \<Rightarrow> session" where
  "ex_session rows = ex_session_scores (map (map Finite) rows)"

definition ex_upload :: "string \<Rightarrow> string \<Rightarrow> upload" where
  "ex_upload name bytes = \<lparr>filename = name, content_type = Some ''image/png'', contents = bytes\<rparr>"

text \<open>A correction store with \<open>n\<close> files under \<^verbatim>\<open>corrections/front\<close> and none under
  \<^verbatim>\<open>corrections/rear\<close>.\<close>

definition ex_fs :: "nat \<Rightarrow> filesystem" where
  "ex_fs n =
     (\<lambda>p. if p = ''corrections/front'' then Some (map (\<lambda>i. replicate (Suc i) CHR ''a'') [0..<n])
          else if p = ''corrections/rear'' then Some []
          else None)"

section \<open>Batch inference (src/app/main.py)\<close>


lemma batch_loop_calls:
  "snd (batch_loop ext s files res calls) =
     calls @ concat (map (\<lambda>f. snd (classify ext s f)) files)"
proof (induction files arbitrary: res calls)
  case Nil
  show ?case by simp
next
  case (Cons f fs)
  obtain r c where rc: "classify ext s f = (r, c)" by (cases "classify ext s f")
  show ?case
  proof (cases r)
    case (Inl e)
    with rc Cons.IH [of "res @ [Failure (filename f) e]" "calls @ c"] show ?thesis by simp
  next
    case (Inr p)
    with rc Cons.IH [of "res @ [Success (filename f) p]" "calls @ c"] show ?thesis by simp
  qed
qed

lemma classify_calls_le_one: "length (snd (classify ext s f)) \<le> 1"
  by (simp add: classify_def split: sum.splits prod.splits)

lemma batch_predict_calls_le: "length (snd (batch_predict ext sess files)) \<le> length files"
proof (cases sess)
  case None
  then show ?thesis by (simp add: batch_predict_def)
next
  case (Some s)
  have "length (concat (map (\<lambda>f. snd (classify ext s f)) fs)) \<le> length fs" for fs
  proof (induction fs)
    case Nil
    show ?case by simp
  next
    case (Cons f fs)
    with classify_calls_le_one [of ext s f] show ?case by simp
  qed
  from this [of files] batch_loop_calls [of ext s files "[]" "[]"] Some show ?thesis
    by (auto simp: batch_predict_def split: prod.splits)
qed






text \<open>
  Claim C2, as amended. A batch of more than 10 files is rejected before the loop and
  with no inference call: with status 400 and the detail "Maximum 10 images allowed per
  batch" when the model is loaded, and with status 503 and the detail "Model not loaded"
  when it is not, since the check of the session comes first.
\<close>

theorem batch_too_large_rejected:
  assumes "length files > 10"
  shows "batch_predict ext (Some s) files =
           (Inl (HTTPException 400 ''Maximum 10 images allowed per batch'' None), []) \<and>
         batch_predict ext None files = (Inl (HTTPException 503 ''Model not loaded'' None), [])"
  using assms by (simp add: batch_predict_def)

text \<open>Eleven files, with and without a loaded model.\<close>

theorem batch_too_large_rejected_witness:
  "length (replicate 11 (ex_upload ''a.png'' ''ok'')) > 10 \<and>
   batch_predict ex_extern (Some (ex_session [[2, 1 / 2]])) (replicate 11 (ex_upload ''a.png'' ''ok'')) =
     (Inl (HTTPException 400 ''Maximum 10 images allowed per batch'' None), []) \<and>
   batch_predict ex_extern None (replicate 11 (ex_upload ''a.png'' ''ok'')) =
     (Inl (HTTPException 503 ''Model not loaded'' None), [])"
proof -
  have h: "length (replicate 11 (ex_upload ''a.png'' ''ok'')) > 10" by simp
  show ?thesis using h batch_too_large_rejected [OF h] by simp
qed

text \<open>
  Claim C2 as stated fails when no model is loaded: eleven files are then rejected with
  "Model not loaded", not with the batch-size error.
\<close>

theorem batch_too_large_unloaded_counterexample:
  "length (replicate 11 (ex_upload ''a.png'' ''ok'')) > 10 \<and>
   fst (batch_predict ex_extern None (replicate 11 (ex_upload ''a.png'' ''ok''))) \<noteq>
     Inl (HTTPException 400 ''Maximum 10 images allowed per batch'' None)"
  by (simp add: batch_predict_def)







section \<open>Correction store and retrain trigger (src/scripts/app.py)\<close>

lemma os_listdir_Inr:
  "os_listdir ext fs p = Inr entries \<longleftrightarrow> other_paths ext p = None \<and> fs p = Some entries"
  by (auto simp: os_listdir_def split: option.splits path_kind.splits)

lemma correct_prediction_ok:
  assumes "correct_prediction ext fs now file pc cc = (CorrectionOk r, fs')"
  shows "\<exists>front rear.
           fs' ''corrections/front'' = Some front \<and> fs' ''corrections/rear'' = Some rear \<and>
           correction_count r = length front + length rear \<and>
           corrections_by_class r = [(''front'', length front), (''rear'', length rear)] \<and>
           threshold r = CONFIG_retrain_threshold \<and>
           retraining_triggered r = (CONFIG_retrain_threshold \<le> length front + length rear)"
  using assms
  by (auto simp: correct_prediction_def Let_def os_listdir_Inr
      split: if_splits sum.splits option.splits)

lemma ex_fs_fresh: "''20251014_103000_car.png'' \<notin> set (map (\<lambda>i. replicate (Suc i) CHR ''a'') [0..<n])"
  by auto

lemma ex_correct_prediction:
  "fst (correct_prediction ex_extern (ex_fs n) ''20251014_103000'' (ex_upload ''car.png'' ''ok'')
     ''rear'' ''front'') =
   CorrectionOk
     \<lparr>message = ''Correction saved successfully'' @
                 (if 50 \<le> Suc n then '' - Retraining will be triggered'' else []),
      correction_count = Suc n, threshold = 50, retraining_triggered = (50 \<le> Suc n),
      corrections_by_class = [(''front'', Suc n), (''rear'', 0)]\<rparr>"
  using ex_fs_fresh [of n]
  by (simp add: correct_prediction_def Let_def os_listdir_def CONFIG_class_names_def
      ex_extern_def ex_upload_def ex_fs_def os_makedirs_def write_file_def
      CONFIG_corrections_dir_def CONFIG_retrain_threshold_def List.insert_def)

lemma count_if_exists_Inr:
  "count_if_exists ext fs p = Inr n \<longleftrightarrow>
     (other_paths ext p = None \<and> n = (case fs p of None \<Rightarrow> 0 | Some es \<Rightarrow> length es))"
  by (auto simp: count_if_exists_def os_path_exists_def os_listdir_def
      split: option.splits path_kind.splits)

lemma get_stats_Inr:
  assumes "get_stats ext fs sess = Inr st"
  shows "other_paths ext ''corrections/front'' = None \<and>
         other_paths ext ''corrections/rear'' = None \<and>
         stats_corrections_by_class st =
           [(''front'', case fs ''corrections/front'' of None \<Rightarrow> 0 | Some es \<Rightarrow> length es),
            (''rear'', case fs ''corrections/rear'' of None \<Rightarrow> 0 | Some es \<Rightarrow> length es)] \<and>
         stats_correction_count st =
           (case fs ''corrections/front'' of None \<Rightarrow> 0 | Some es \<Rightarrow> length es) +
           (case fs ''corrections/rear'' of None \<Rightarrow> 0 | Some es \<Rightarrow> length es)"
  using assms
  by (auto simp: get_stats_def Let_def count_if_exists_Inr split: sum.splits)

lemma get_stats_session_independent:
  assumes "get_stats ext fs sess = Inr st"
  shows "\<exists>st'. get_stats ext fs sess' = Inr st' \<and>
           stats_correction_count st' = stats_correction_count st \<and>
           stats_corrections_by_class st' = stats_corrections_by_class st"
  using assms
  by (auto simp: get_stats_def Let_def split: sum.splits)

text \<open>
  The statistics are not always returned: when a class directory path holds a regular
  file, \<^verbatim>\<open>os.path.exists\<close> is true and \<^verbatim>\<open>os.listdir\<close> raises.
\<close>

lemma get_stats_regular_file:
  "get_stats (ex_extern\<lparr>other_paths := (\<lambda>p. if p = ''corrections/front'' then Some RegularFile
                                              else None)\<rparr>) fs sess =
     Inl (NotADirectoryError ''corrections/front'')"
  by (simp add: get_stats_def count_if_exists_def os_path_exists_def os_listdir_def ex_extern_def)

text \<open>
  Claim C1. Whenever \<^verbatim>\<open>/correct\<close> saves a correction, the total it reports is the number
  of entries of the two class directories after the save, and \<^verbatim>\<open>retraining_triggered\<close>
  is exactly the comparison of that total with the threshold 50.
\<close>

theorem retrain_trigger_threshold:
  assumes "correct_prediction ext fs now file pc cc = (CorrectionOk r, fs')"
  shows "retraining_triggered r = (correction_count r \<ge> 50) \<and> threshold r = 50 \<and>
         (\<exists>front rear. fs' ''corrections/front'' = Some front \<and>
                       fs' ''corrections/rear'' = Some rear \<and>
                       correction_count r = length front + length rear)"
  using correct_prediction_ok [OF assms] by (auto simp: CONFIG_retrain_threshold_def)

text \<open>The 49th correction does not trigger, the 50th does.\<close>

theorem retrain_trigger_threshold_witness:
  "fst (correct_prediction ex_extern (ex_fs 48) ''20251014_103000'' (ex_upload ''car.png'' ''ok'')
     ''rear'' ''front'') =
   CorrectionOk
     \<lparr>message = ''Correction saved successfully'', correction_count = 49, threshold = 50,
      retraining_triggered = False, corrections_by_class = [(''front'', 49), (''rear'', 0)]\<rparr> \<and>
   fst (correct_prediction ex_extern (ex_fs 49) ''20251014_103000'' (ex_upload ''car.png'' ''ok'')
     ''rear'' ''front'') =
   CorrectionOk
     \<lparr>message = ''Correction saved successfully - Retraining will be triggered'',
      correction_count = 50, threshold = 50,
      retraining_triggered = True, corrections_by_class = [(''front'', 50), (''rear'', 0)]\<rparr>"
proof -
  let ?call = "\<lambda>n. correct_prediction ex_extern (ex_fs n) ''20251014_103000''
                      (ex_upload ''car.png'' ''ok'') ''rear'' ''front''"
  let ?r49 = "\<lparr>message = ''Correction saved successfully'', correction_count = 49, threshold = 50,
      retraining_triggered = False, corrections_by_class = [(''front'', 49), (''rear'', 0)]\<rparr>"
  have a: "?call 48 = (CorrectionOk ?r49, snd (?call 48))"
    using ex_correct_prediction [of 48] by (simp add: prod_eq_iff)
  note t = retrain_trigger_threshold [OF a]
  show ?thesis using t ex_correct_prediction [of 48] ex_correct_prediction [of 49] by simp
qed

text \<open>
  Claim C5. A correction whose class is not a configured class name is answered with the
  failure body carrying the exception of the class check, and storage is left as it was:
  no directory is created, no image is saved, and the statistics read the same counts.
\<close>

theorem invalid_class_rejected:
  assumes "correct_class \<notin> set CONFIG_class_names"
  shows "correct_prediction ext fs now file pc correct_class =
           (CorrectionFailed
              (HTTPException 400 ''Invalid class. Must be one of: [front, rear]'' None), fs) \<and>
         get_stats ext (snd (correct_prediction ext fs now file pc correct_class)) sess =
           get_stats ext fs sess"
  using assms by (simp add: correct_prediction_def)

text \<open>The class \<open>side\<close> on a store of 49 corrections.\<close>

theorem invalid_class_rejected_witness:
  "''side'' \<notin> set CONFIG_class_names \<and>
   correct_prediction ex_extern (ex_fs 49) ''20251014_103000'' (ex_upload ''car.png'' ''ok'')
     ''rear'' ''side'' =
     (CorrectionFailed (HTTPException 400 ''Invalid class. Must be one of: [front, rear]'' None),
      ex_fs 49)"
proof -
  have h: "''side'' \<notin> set CONFIG_class_names" by (simp add: CONFIG_class_names_def)
  show ?thesis using h invalid_class_rejected [OF h] by simp
qed

text \<open>
  Claim C9. In the response of a saved correction and in every response that \<^verbatim>\<open>/stats\<close>
  returns, the total is the sum of the per-class counts, and each per-class count is the
  length of the listing of that class directory (0 for a directory that \<^verbatim>\<open>/stats\<close> does
  not find). The counts are read from storage alone: whatever session the process holds,
  and so also after a restart on the same storage, \<^verbatim>\<open>/stats\<close> returns the same counts.
\<close>

theorem tally_recomputed_from_storage:
  "(correct_prediction ext fs now file pc cc = (CorrectionOk r, fs') \<longrightarrow>
      correction_count r = sum_list (map snd (corrections_by_class r)) \<and>
      (\<exists>front rear. os_listdir ext fs' ''corrections/front'' = Inr front \<and>
                    os_listdir ext fs' ''corrections/rear'' = Inr rear \<and>
                    corrections_by_class r = [(''front'', length front), (''rear'', length rear)])) \<and>
   (get_stats ext store sess = Inr st \<longrightarrow>
      stats_correction_count st = sum_list (map snd (stats_corrections_by_class st)) \<and>
      stats_corrections_by_class st =
        [(''front'', case store ''corrections/front'' of None \<Rightarrow> 0 | Some es \<Rightarrow> length es),
         (''rear'', case store ''corrections/rear'' of None \<Rightarrow> 0 | Some es \<Rightarrow> length es)] \<and>
      (\<forall>sess'. \<exists>st'. get_stats ext store sess' = Inr st' \<and>
         stats_correction_count st' = stats_correction_count st \<and>
         stats_corrections_by_class st' = stats_corrections_by_class st))"
proof (intro conjI impI)
  assume a: "correct_prediction ext fs now file pc cc = (CorrectionOk r, fs')"
  from a have "\<exists>front rear. os_listdir ext fs' ''corrections/front'' = Inr front \<and>
                    os_listdir ext fs' ''corrections/rear'' = Inr rear \<and>
                    corrections_by_class r = [(''front'', length front), (''rear'', length rear)] \<and>
                    correction_count r = length front + length rear"
    by (auto simp: correct_prediction_def Let_def split: if_splits sum.splits option.splits)
  then show "correction_count r = sum_list (map snd (corrections_by_class r))"
    and "\<exists>front rear. os_listdir ext fs' ''corrections/front'' = Inr front \<and>
                    os_listdir ext fs' ''corrections/rear'' = Inr rear \<and>
                    corrections_by_class r = [(''front'', length front), (''rear'', length rear)]"
    by auto
next
  assume b: "get_stats ext store sess = Inr st"
  from get_stats_Inr [OF b]
  show "stats_correction_count st = sum_list (map snd (stats_corrections_by_class st))"
    and "stats_corrections_by_class st =
        [(''front'', case store ''corrections/front'' of None \<Rightarrow> 0 | Some es \<Rightarrow> length es),
         (''rear'', case store ''corrections/rear'' of None \<Rightarrow> 0 | Some es \<Rightarrow> length es)]"
    by simp_all
  show "\<forall>sess'. \<exists>st'. get_stats ext store sess' = Inr st' \<and>
         stats_correction_count st' = stats_correction_count st \<and>
         stats_corrections_by_class st' = stats_corrections_by_class st"
    using get_stats_session_independent [OF b] by blast
qed

lemma ex_get_stats:
  "get_stats ex_extern (ex_fs 49) sess =
     Inr \<lparr>stats_correction_count = 49, stats_threshold = 50, progress_percentage = 98,
          stats_corrections_by_class = [(''front'', 49), (''rear'', 0)],
          model_loaded = (sess \<noteq> None), model_path = ''models/best.onnx''\<rparr>"
  by (simp add: get_stats_def count_if_exists_def os_path_exists_def os_listdir_def ex_extern_def
      ex_fs_def Let_def CONFIG_retrain_threshold_def CONFIG_model_path_def py_round_def)

text \<open>The response of the 49th correction, and the statistics read after it by a process
  without a session and by one with a session.\<close>

theorem tally_recomputed_from_storage_witness:
  "fst (correct_prediction ex_extern (ex_fs 48) ''20251014_103000'' (ex_upload ''car.png'' ''ok'')
     ''rear'' ''front'') =
   CorrectionOk
     \<lparr>message = ''Correction saved successfully'', correction_count = 49, threshold = 50,
      retraining_triggered = False, corrections_by_class = [(''front'', 49), (''rear'', 0)]\<rparr> \<and>
   (49::nat) = sum_list (map snd [(''front'', 49), (''rear'', 0::nat)]) \<and>
   get_stats ex_extern (ex_fs 49) None =
     Inr \<lparr>stats_correction_count = 49, stats_threshold = 50, progress_percentage = 98,
          stats_corrections_by_class = [(''front'', 49), (''rear'', 0)],
          model_loaded = False, model_path = ''models/best.onnx''\<rparr> \<and>
   (\<exists>st'. get_stats ex_extern (ex_fs 49) (Some (ex_session [[2, 1 / 2]])) = Inr st' \<and>
      stats_correction_count st' = 49 \<and>
      stats_corrections_by_class st' = [(''front'', 49), (''rear'', 0)])"
proof -
  let ?call = "correct_prediction ex_extern (ex_fs 48) ''20251014_103000''
                      (ex_upload ''car.png'' ''ok'') ''rear'' ''front''"
  let ?r49 = "\<lparr>message = ''Correction saved successfully'', correction_count = 49, threshold = 50,
      retraining_triggered = False, corrections_by_class = [(''front'', 49), (''rear'', 0)]\<rparr>"
  let ?st = "\<lparr>stats_correction_count = 49, stats_threshold = 50, progress_percentage = 98,
          stats_corrections_by_class = [(''front'', 49), (''rear'', 0)],
          model_loaded = False, model_path = ''models/best.onnx''\<rparr>"
  have a: "?call = (CorrectionOk ?r49, snd ?call)"
    using ex_correct_prediction [of 48] by (simp add: prod_eq_iff)
  have b: "get_stats ex_extern (ex_fs 49) None = Inr ?st"
    using ex_get_stats [of None] by simp
  note t = tally_recomputed_from_storage
    [of ex_extern "ex_fs 48" "''20251014_103000''" "ex_upload ''car.png'' ''ok''" "''rear''"
        "''front''" ?r49 "snd ?call" "ex_fs 49" None ?st]
  from t a have "correction_count ?r49 = sum_list (map snd (corrections_by_class ?r49))"
    by blast
  moreover from t b have "\<exists>st'. get_stats ex_extern (ex_fs 49) (Some (ex_session [[2, 1 / 2]])) = Inr st' \<and>
         stats_correction_count st' = stats_correction_count ?st \<and>
         stats_corrections_by_class st' = stats_corrections_by_class ?st"
    by blast
  ultimately show ?thesis using ex_correct_prediction [of 48] b by simp
qed

section \<open>Model load failure\<close>

text \<open>
  Claim C4, as amended. In \<^verbatim>\<open>src/scripts/app.py\<close>, when the model file is missing or the
  loader raises, \<^verbatim>\<open>load_model\<close> prints the failure and returns \<open>False\<close>, the session stays
  \<open>None\<close>, the startup handler raises nothing, and every later \<^verbatim>\<open>predict_image\<close> raises
  \<^verbatim>\<open>HTTPException(500, "Model not loaded")\<close> before it touches the image. In
  \<^verbatim>\<open>src/app/main.py\<close> the startup handler logs the failure and raises it again, so startup
  fails; with the session \<open>None\<close>, \<^verbatim>\<open>predict\<close> and \<^verbatim>\<open>batch_predict\<close> raise
  \<^verbatim>\<open>HTTPException(503, "Model not loaded")\<close>.
\<close>

theorem model_load_failure:
  "((\<not> path_exists ext (CONFIG_model_path ext) \<or>
     (\<exists>e. InferenceSession ext (CONFIG_model_path ext) = Inl e)) \<longrightarrow>
      (\<exists>out trail.
         load_model_scripts ext None = (False, None, out) \<and>
         (out = [(STDOUT, ''Model not found at '' @ CONFIG_model_path ext, None)] \<or>
          (\<exists>e. out = [(STDOUT, ''Error loading model:'', Some e), (STDERR, ''Traceback'', Some e)])) \<and>
         startup_event ext None = (None, trail) \<and> set out \<subseteq> set trail) \<and>
      (\<forall>img. predict_image ext (fst (startup_event ext None)) img =
               Inl (HTTPException 500 ''Model not loaded'' None))) \<and>
   ((\<not> path_exists ext MODEL_PATH \<or> (\<exists>e. InferenceSession ext MODEL_PATH = Inl e)) \<longrightarrow>
      (\<exists>e trail. load_model_main ext None = (Inl e, None, trail) \<and>
                  (ERROR, ''Failed to load model: '', Some e) \<in> set trail) \<and>
      predict_main ext None file = Inl (HTTPException 503 ''Model not loaded'' None) \<and>
      batch_predict ext None files = (Inl (HTTPException 503 ''Model not loaded'' None), []))"
  by (auto simp: load_model_scripts_def startup_event_def predict_image_def load_model_main_def
      predict_main_def batch_predict_def Let_def split: sum.splits)

text \<open>The environment without a model file.\<close>

theorem model_load_failure_witness:
  "\<not> path_exists ex_extern (CONFIG_model_path ex_extern) \<and>
   \<not> path_exists ex_extern MODEL_PATH \<and>
   startup_event ex_extern None =
     (None, [(STDOUT, ''Starting Vehicle Classification API'', None),
             (STDOUT, ''Model not found at models/best.onnx'', None),
             (STDOUT, ''API started but model not loaded'', None)]) \<and>
   predict_image ex_extern (fst (startup_event ex_extern None)) (Image ''RGB'' 1 1 [0, 0, 0]) =
     Inl (HTTPException 500 ''Model not loaded'' None) \<and>
   fst (load_model_main ex_extern None) =
     Inl (FileNotFoundError ''Model file not found at app/model/classifier.onnx'')"
proof -
  have h1: "\<not> path_exists ex_extern (CONFIG_model_path ex_extern)"
    and h2: "\<not> path_exists ex_extern MODEL_PATH"
    by (simp_all add: ex_extern_def)
  from model_load_failure [of ex_extern] h1
  have "predict_image ex_extern (fst (startup_event ex_extern None)) (Image ''RGB'' 1 1 [0, 0, 0]) =
     Inl (HTTPException 500 ''Model not loaded'' None)"
    by blast
  moreover have "startup_event ex_extern None =
     (None, [(STDOUT, ''Starting Vehicle Classification API'', None),
             (STDOUT, ''Model not found at models/best.onnx'', None),
             (STDOUT, ''API started but model not loaded'', None)])"
    by (simp add: startup_event_def load_model_scripts_def ex_extern_def CONFIG_model_path_def)
  moreover have "fst (load_model_main ex_extern None) =
     Inl (FileNotFoundError ''Model file not found at app/model/classifier.onnx'')"
    by (simp add: load_model_main_def ex_extern_def MODEL_PATH_def Let_def)
  ultimately show ?thesis using h1 h2 by simp
qed

text \<open>
  Claim C4 as stated fails for \<^verbatim>\<open>src/app/main.py\<close>: with the model file missing, its
  startup handler ends by raising \<^verbatim>\<open>FileNotFoundError\<close>.
\<close>

theorem startup_main_raises_counterexample:
  "\<not> path_exists ex_extern MODEL_PATH \<and>
   load_model_main ex_extern None =
     (Inl (FileNotFoundError ''Model file not found at app/model/classifier.onnx''), None,
      [(ERROR, ''Failed to load model: '',
        Some (FileNotFoundError ''Model file not found at app/model/classifier.onnx''))])"
  by (simp add: load_model_main_def ex_extern_def MODEL_PATH_def Let_def)

section \<open>Decision layer\<close>

subsection \<open>Rounding, maximum and arg-max\<close>

lemma py_round_between:
  fixes a b :: int
  assumes "of_int a \<le> x * 10 ^ n" and "x * 10 ^ n \<le> of_int b"
  shows "of_int a / 10 ^ n \<le> py_round x n \<and> py_round x n \<le> of_int b / 10 ^ n"
proof -
  define y where "y = x * 10 ^ n"
  define f where "f = \<lfloor>y\<rfloor>"
  define q where "q = (if y - of_int f < 1 / 2 then f else if 1 / 2 < y - of_int f then f + 1
               else if even f then f else f + 1)"
  have r: "py_round x n = of_int q / 10 ^ n"
    by (simp add: py_round_def Let_def y_def f_def q_def)
  have af: "a \<le> f" using assms(1) by (simp add: f_def y_def le_floor_iff)
  have fb: "f \<le> b" using floor_mono [OF assms(2)] by (simp add: f_def y_def)
  have "q = f \<or> (q = f + 1 \<and> of_int f < y)" by (auto simp: q_def)
  moreover have "f + 1 \<le> b" if "of_int f < y"
  proof -
    have "f \<noteq> b" using that assms(2) by (auto simp: y_def)
    with fb show ?thesis by simp
  qed
  ultimately have "a \<le> q \<and> q \<le> b" using af fb by auto
  then have "(of_int a :: real) \<le> of_int q \<and> (of_int q :: real) \<le> of_int b" by simp
  then show ?thesis unfolding r by (simp add: divide_right_mono)
qed

lemma py_round_exact:
  fixes k :: int
  assumes "of_int k - 1 / 2 < x * 10 ^ n" and "x * 10 ^ n < of_int k + 1 / 2"
  shows "py_round x n = of_int k / 10 ^ n"
proof -
  define y where "y = x * 10 ^ n"
  have y: "of_int k - 1 / 2 < y" "y < of_int k + 1 / 2" using assms by (simp_all add: y_def)
  show ?thesis
  proof (cases "of_int k \<le> y")
    case True
    then have f: "\<lfloor>y\<rfloor> = k" using y by (simp add: floor_unique)
    then show ?thesis using y by (simp add: py_round_def Let_def flip: y_def)
  next
    case False
    then have f: "\<lfloor>y\<rfloor> = k - 1" using y by (intro floor_unique) simp_all
    then show ?thesis using y False by (simp add: py_round_def Let_def flip: y_def)
  qed
qed

lemma py_round_unit: "0 \<le> c \<Longrightarrow> c \<le> 1 \<Longrightarrow> 0 \<le> py_round c 4 \<and> py_round c 4 \<le> 1"
  using py_round_between [of 0 c 4 10000] by simp

lemma py_round_percent:
  "0 \<le> p \<Longrightarrow> p \<le> 1 \<Longrightarrow> 0 \<le> py_round (p * 100) 2 \<and> py_round (p * 100) 2 \<le> 100"
  using py_round_between [of 0 "p * 100" 2 10000] by simp

lemma first_index_props:
  "v \<in> set xs \<Longrightarrow>
     first_index v xs < length xs \<and> xs ! first_index v xs = v \<and>
     (\<forall>j<first_index v xs. xs ! j \<noteq> v)"
proof (induction xs)
  case Nil
  then show ?case by simp
next
  case (Cons x xs)
  then show ?case by (auto simp: nth_Cons split: nat.splits)
qed

lemma first_index_map_inj:
  "inj g \<Longrightarrow> first_index (g v) (map g xs) = first_index v xs"
  by (induction xs) (auto dest: injD)

lemma score_le_refl: "a \<noteq> NaN \<Longrightarrow> score_le a a"
  by (cases a) simp_all

lemma score_le_total: "a \<noteq> NaN \<Longrightarrow> b \<noteq> NaN \<Longrightarrow> score_le a b \<or> score_le b a"
  by (cases a; cases b) auto

lemma score_le_trans: "score_le a b \<Longrightarrow> score_le b c \<Longrightarrow> score_le a c"
  by (cases a; cases b; cases c) auto

lemma score_max_NaN: "score_max a b = NaN \<longleftrightarrow> a = NaN \<or> b = NaN"
  by (auto simp: score_max_def)

lemma score_max_props:
  assumes "a \<noteq> NaN" and "b \<noteq> NaN"
  shows "(score_max a b = a \<or> score_max a b = b) \<and>
         score_le a (score_max a b) \<and> score_le b (score_max a b)"
  using assms score_le_total [OF assms] score_le_refl [of a] score_le_refl [of b]
  by (auto simp: score_max_def)

lemma fold_score_max_Finite:
  "fold score_max xs a = Finite x \<Longrightarrow>
     a \<noteq> NaN \<and> NaN \<notin> set xs \<and> Finite x \<in> set (a # xs) \<and>
     (\<forall>y\<in>set (a # xs). score_le y (Finite x))"
proof (induction xs arbitrary: a)
  case Nil
  then show ?case by simp
next
  case (Cons b xs)
  let ?m = "score_max b a"
  from Cons.prems have f: "fold score_max xs ?m = Finite x" by simp
  from Cons.IH [OF f] have ih: "?m \<noteq> NaN" "NaN \<notin> set xs" "Finite x \<in> set (?m # xs)"
    "\<forall>y\<in>set (?m # xs). score_le y (Finite x)"
    by simp_all
  from ih(1) have ab: "b \<noteq> NaN" "a \<noteq> NaN" by (simp_all add: score_max_NaN)
  note p = score_max_props [OF ab]
  from ih(4) have mx: "score_le ?m (Finite x)" by simp
  have "score_le a (Finite x)" "score_le b (Finite x)"
    using p mx by (blast intro: score_le_trans)+
  moreover have "Finite x \<in> set (a # b # xs)" using ih(3) p by auto
  ultimately show ?case using ab ih(2,4) by auto
qed

lemma np_max_Finite:
  assumes "np_max xs = Inr (Finite x)"
  shows "NaN \<notin> set xs \<and> Finite x \<in> set xs \<and> (\<forall>y\<in>set xs. score_le y (Finite x)) \<and>
         np_argmax xs = Inr (first_index (Finite x) xs)"
proof (cases xs)
  case Nil
  with assms show ?thesis by simp
next
  case (Cons a as)
  with assms have f: "fold score_max as a = Finite x" by simp
  from fold_score_max_Finite [OF f] Cons f show ?thesis by auto
qed

lemma fold_score_max_map_Finite:
  "fold score_max (map Finite xs) (Finite x) = Finite (fold max xs x)"
  by (induction xs arbitrary: x) (simp_all add: score_max_def max_def)

lemma fold_max_Max: "fold max xs x = Max (set (x # xs))" for x :: real
  by (simp only: Max.set_eq_fold)

lemma np_max_map_Finite: "ls \<noteq> [] \<Longrightarrow> np_max (map Finite ls) = Inr (Finite (Max (set ls)))"
proof (cases ls)
  case Nil
  assume "ls \<noteq> []"
  with Nil show ?thesis by simp
next
  case (Cons a as)
  then show ?thesis
    by (simp only: list.map np_max.simps fold_score_max_map_Finite fold_max_Max)
qed

lemma np_argmax_map_Finite:
  assumes "ls \<noteq> []"
  shows "np_argmax (map Finite ls) = Inr (first_index (Max (set ls)) ls)"
proof -
  have "Max (set ls) \<in> set ls" using assms by (intro Max_in) simp_all
  then have "Finite (Max (set ls)) \<in> set (map Finite ls)" by simp
  moreover have "inj Finite" by (simp add: inj_def)
  ultimately show ?thesis
    using np_max_Finite [OF np_max_map_Finite [OF assms]]
    by (simp add: first_index_map_inj)
qed

lemma list_all_is_finite: "list_all is_finite xs \<Longrightarrow> \<exists>ls. xs = map Finite ls"
proof (induction xs)
  case Nil
  then show ?case by simp
next
  case (Cons a xs)
  then obtain ls where "xs = map Finite ls" by auto
  moreover from Cons.prems obtain r where "a = Finite r" by (cases a) auto
  ultimately have "a # xs = map Finite (r # ls)" by simp
  then show ?case by (rule exI)
qed

subsection \<open>Softmax over the reals\<close>

text \<open>
  Over the real numbers the probabilities of lines 91 and 92 are positive, at most 1, and
  sum to exactly 1 for every non-empty vector of logits; on finite logits they are what
  \<open>softmax_scores\<close> computes. What the float32 computation adds to this (rounding,
  underflow of \<^verbatim>\<open>np.exp\<close>) is not expressed here.
\<close>

lemma member_le_sum_list_real:
  fixes xs :: "real list"
  shows "x \<in> set xs \<Longrightarrow> (\<forall>y\<in>set xs. 0 \<le> y) \<Longrightarrow> x \<le> sum_list xs"
proof (induction xs)
  case Nil
  then show ?case by simp
next
  case (Cons a xs)
  then have "0 \<le> sum_list xs" by (simp add: sum_list_nonneg)
  with Cons show ?case by (cases "x = a") (auto simp: add_increasing)
qed

lemma exp_sum_pos:
  "logits \<noteq> [] \<Longrightarrow> 0 < sum_list (map (\<lambda>l. exp (l - m)) logits)" for m :: real
proof (induction logits)
  case Nil
  then show ?case by simp
next
  case (Cons a logits)
  have "0 \<le> sum_list (map (\<lambda>l. exp (l - m)) logits)" by (rule sum_list_nonneg) auto
  then show ?case by (simp add: add_pos_nonneg)
qed

lemma softmax_length: "length (softmax logits m) = length logits"
  by (simp add: softmax_def Let_def)

lemma softmax_nth:
  "i < length logits \<Longrightarrow>
     softmax logits m ! i = exp (logits ! i - m) / sum_list (map (\<lambda>l. exp (l - m)) logits)"
  by (simp add: softmax_def Let_def)

lemma softmax_range:
  assumes "i < length logits"
  shows "0 < softmax logits m ! i \<and> softmax logits m ! i \<le> 1"
proof -
  let ?es = "map (\<lambda>l. exp (l - m)) logits"
  have ne: "logits \<noteq> []" using assms by auto
  have pos: "0 < sum_list ?es" by (rule exp_sum_pos [OF ne])
  have "exp (logits ! i - m) \<in> set ?es" using assms by (auto simp: in_set_conv_nth intro!: exI [of _ i])
  then have "exp (logits ! i - m) \<le> sum_list ?es"
    by (rule member_le_sum_list_real) auto
  with pos show ?thesis using assms by (simp add: softmax_nth)
qed

lemma softmax_sum_one:
  assumes "logits \<noteq> []"
  shows "sum_list (softmax logits m) = 1"
proof -
  let ?es = "map (\<lambda>l. exp (l - m)) logits"
  have pos: "0 < sum_list ?es" by (rule exp_sum_pos [OF assms])
  have "sum_list (map (\<lambda>e. e / c) es) = sum_list es / c" for es :: "real list" and c
    by (induction es) (simp_all add: add_divide_distrib)
  from this [of "sum_list ?es" ?es] pos show ?thesis by (simp add: softmax_def Let_def)
qed

lemma score_sum_map_Finite: "score_sum (map Finite xs) = Finite (sum_list xs)"
  by (induction xs) (simp_all add: score_sum_def)

lemma softmax_scores_finite:
  assumes "ls \<noteq> []"
  shows "softmax_scores (map Finite ls) (Finite m) = map Finite (softmax ls m)"
proof -
  let ?es = "map (\<lambda>l. exp (l - m)) ls"
  have e: "map (\<lambda>l. score_exp (score_sub l (Finite m))) (map Finite ls) = map Finite ?es"
    by simp
  have pos: "sum_list ?es \<noteq> 0" using exp_sum_pos [OF assms, of m] by simp
  show ?thesis
    unfolding softmax_scores_def softmax_def Let_def e score_sum_map_Finite
    using pos by simp
qed

subsection \<open>What the two predict endpoints return\<close>

lemma get_class_name_cases:
  "get_class_name i =
     (if i = 0 then ''front_vehicle'' else if i = 1 then ''rear_vehicle'' else ''unknown'')"
proof -
  have "nat i = 1" if "0 \<le> i" "i < 2" "i \<noteq> 0" using that by linarith
  then show ?thesis by (auto simp: get_class_name_def Let_def)
qed

lemma classify_ok:
  assumes "fst (classify ext s file) = Inr p"
  shows "\<exists>img t name out c.
           image_open ext (contents file) = Inr img \<and>
           preprocess_image ext img MODEL_INPUT_SIZE = Inr t \<and>
           py_index (get_inputs s) 0 = Inr name \<and>
           run s name t = Inr out \<and>
           postprocess_output out = Inr (class_index p, c) \<and>
           confidence p = round_score c 4 \<and> label p = get_class_name (class_index p)"
  using assms
  by (fastforce simp: classify_def split: sum.splits prod.splits)

lemma predict_main_ok:
  assumes "predict_main ext sess file = Inr r"
  shows "\<exists>s. sess = Some s \<and> fst (classify ext s file) = Inr (pm_prediction r) \<and>
             is_finite (confidence (pm_prediction r))"
  using assms
  by (auto simp: predict_main_def split: option.splits if_splits sum.splits)

lemma postprocess_output_Finite:
  assumes "postprocess_output out = Inr (i, c)" and "is_finite (round_score c n)"
  shows "\<exists>x. c = Finite x \<and> np_max (concat out) = Inr (Finite x) \<and>
             np_argmax (concat out) = Inr (nat i) \<and> 0 \<le> i \<and>
             i < int (length (concat out)) \<and> concat out ! nat i = Finite x \<and>
             (\<forall>y\<in>set (concat out). score_le y (Finite x))"
proof -
  from assms(2) obtain x where c: "c = Finite x" by (cases c) auto
  from assms(1) have m: "np_max (concat out) = Inr (Finite x)"
    and a: "np_argmax (concat out) = Inr (nat i)" and i: "0 \<le> i"
    by (auto simp: postprocess_output_def c split: sum.splits)
  from np_max_Finite [OF m] a have
    mem: "Finite x \<in> set (concat out)" and le: "\<forall>y\<in>set (concat out). score_le y (Finite x)"
    and ix: "nat i = first_index (Finite x) (concat out)"
    by simp_all
  from first_index_props [OF mem] ix
  have n: "nat i < length (concat out)" and "concat out ! nat i = Finite x" by simp_all
  from n i have "i < int (length (concat out))" by linarith
  with c m a i le \<open>concat out ! nat i = Finite x\<close> show ?thesis by blast
qed

lemma decision_from_probs_class:
  assumes "decision_from_probs probs = Inr q"
  shows "predicted_class q \<in> set CONFIG_class_names"
  using assms
  by (auto simp: decision_from_probs_def py_index_def split: sum.splits if_splits dest: nth_mem)

lemma decision_from_probs_out_of_range:
  assumes "np_argmax probs = Inr k" and "2 \<le> k"
  shows "decision_from_probs probs = Inl (IndexError ''list index out of range'')"
  using assms by (simp add: decision_from_probs_def py_index_def CONFIG_class_names_def)

lemma decision_from_probs_finite:
  assumes "decision_from_probs (map Finite ps) = Inr q"
    and "\<forall>i<length ps. 0 \<le> ps ! i \<and> ps ! i \<le> 1"
  shows "\<exists>x. confidence_pct q = Finite x \<and> 0 \<le> x \<and> x \<le> 100"
proof -
  have ne: "ps \<noteq> []" using assms(1) by (auto simp: decision_from_probs_def)
  define k where "k = first_index (Max (set ps)) ps"
  have am: "np_argmax (map Finite ps) = Inr k" by (simp add: k_def np_argmax_map_Finite [OF ne])
  have "Max (set ps) \<in> set ps" using ne by (intro Max_in) simp_all
  from first_index_props [OF this] have k: "k < length ps" by (simp add: k_def)
  from assms(1) have "confidence_pct q = Finite (py_round (ps ! k * 100) 2)"
    using am k by (auto simp: decision_from_probs_def split: sum.splits)
  with py_round_percent [of "ps ! k"] assms(2) k show ?thesis by simp
qed

lemma softmax_decision_finite:
  assumes "softmax_decision logits = Inr q" and "list_all is_finite logits"
  shows "\<exists>x. confidence_pct q = Finite x \<and> 0 \<le> x \<and> x \<le> 100"
proof -
  from list_all_is_finite [OF assms(2)] obtain ls where ls: "logits = map Finite ls" by blast
  have ne: "ls \<noteq> []" using assms(1) by (auto simp: softmax_decision_def ls)
  let ?ps = "softmax ls (Max (set ls))"
  from assms(1) have d: "decision_from_probs (map Finite ?ps) = Inr q"
    by (simp add: softmax_decision_def ls np_max_map_Finite [OF ne] softmax_scores_finite [OF ne])
  have "\<forall>i<length ?ps. 0 \<le> ?ps ! i \<and> ?ps ! i \<le> 1"
    using softmax_range [of _ ls "Max (set ls)"] by (auto simp: softmax_length less_imp_le)
  from decision_from_probs_finite [OF d this] show ?thesis .
qed

lemma predict_image_ok:
  assumes "predict_image ext ort_session img = Inr q"
  shows "\<exists>s t name logits rows.
           ort_session = Some s \<and> preprocess_image_scripts ext img = Inr t \<and>
           py_index (get_inputs s) 0 = Inr name \<and> run s name t = Inr (logits # rows) \<and>
           softmax_decision logits = Inr q"
proof -
  from assms obtain s where s: "ort_session = Some s"
    and b: "predict_image_body ext s img = Inr q"
    by (auto simp: predict_image_def split: option.splits sum.splits)
  from b obtain t name out logits where
    t: "preprocess_image_scripts ext img = Inr t" and n: "py_index (get_inputs s) 0 = Inr name"
    and r: "run s name t = Inr out" and l: "py_index out 0 = Inr logits"
    and d: "softmax_decision logits = Inr q"
    by (auto simp: predict_image_body_def split: sum.splits)
  from l obtain rows where "out = logits # rows"
    by (cases out) (auto simp: py_index_def)
  with s t n r d show ?thesis by blast
qed

text \<open>
  On logits that are not all finite the probabilities are NaN as soon as one logit is NaN
  or plus infinity, and so is the confidence that \<^verbatim>\<open>predict_image\<close> returns.
\<close>

lemma softmax_decision_nan:
  "softmax_decision [NaN, Finite 0] =
     Inr \<lparr>predicted_class = ''front'', confidence_pct = NaN,
          probabilities = [(''front'', NaN), (''rear'', NaN)]\<rparr>"
  by (simp add: softmax_decision_def decision_from_probs_def softmax_scores_def score_sum_def
      score_max_def Let_def py_index_def CONFIG_class_names_def upt_rec)

lemma softmax_decision_posinf:
  "softmax_decision [PosInf, Finite 0] =
     Inr \<lparr>predicted_class = ''front'', confidence_pct = NaN,
          probabilities = [(''front'', NaN), (''rear'', NaN)]\<rparr>"
  by (simp add: softmax_decision_def decision_from_probs_def softmax_scores_def score_sum_def
      score_max_def Let_def py_index_def CONFIG_class_names_def upt_rec)

text \<open>
  Claim C6, as amended. When \<^verbatim>\<open>predict\<close> of \<^verbatim>\<open>src/app/main.py\<close> succeeds, the session
  has been run on the preprocessed upload, the largest score of its output is finite,
  \<^verbatim>\<open>class_index\<close> is the arg-max of that output and lies within it, the confidence is
  the largest raw score rounded to 4 decimals, which lies in \<open>[0, 1]\<close> whenever that raw
  score does, and the label is the class name at the index, or \<open>''unknown''\<close> when the
  index is neither 0 nor 1. When \<^verbatim>\<open>predict_image\<close> of \<^verbatim>\<open>src/scripts/app.py\<close> succeeds, its
  label is one of the configured class names and, if the logits are finite, its
  confidence is a percentage in \<open>[0, 100]\<close>. Whatever probabilities have been computed,
  when their arg-max is at an index of 2 or more, lines 93 to 102 raise \<^verbatim>\<open>IndexError\<close>
  instead of returning a label, and \<^verbatim>\<open>predict_image\<close> turns every exception of its
  \<^verbatim>\<open>try\<close> block into \<^verbatim>\<open>HTTPException(500)\<close>.
\<close>

theorem decision_layer_outputs:
  "(predict_main ext sess upl = Inr r \<longrightarrow>
      (\<exists>s img t name out x.
         sess = Some s \<and> image_open ext (contents upl) = Inr img \<and>
         preprocess_image ext img MODEL_INPUT_SIZE = Inr t \<and>
         py_index (get_inputs s) 0 = Inr name \<and> run s name t = Inr out \<and>
         np_max (concat out) = Inr (Finite x) \<and>
         np_argmax (concat out) = Inr (nat (class_index (pm_prediction r))) \<and>
         0 \<le> class_index (pm_prediction r) \<and>
         class_index (pm_prediction r) < int (length (concat out)) \<and>
         concat out ! nat (class_index (pm_prediction r)) = Finite x \<and>
         (\<forall>y\<in>set (concat out). score_le y (Finite x)) \<and>
         confidence (pm_prediction r) = Finite (py_round x 4) \<and>
         (0 \<le> x \<and> x \<le> 1 \<longrightarrow> 0 \<le> py_round x 4 \<and> py_round x 4 \<le> 1) \<and>
         label (pm_prediction r) =
           (if class_index (pm_prediction r) = 0 then ''front_vehicle''
            else if class_index (pm_prediction r) = 1 then ''rear_vehicle''
            else ''unknown''))) \<and>
   (predict_image ext ort_session img' = Inr q \<longrightarrow>
      (\<exists>s t name logits rows.
         ort_session = Some s \<and> preprocess_image_scripts ext img' = Inr t \<and>
         py_index (get_inputs s) 0 = Inr name \<and> run s name t = Inr (logits # rows) \<and>
         predicted_class q \<in> set CONFIG_class_names \<and>
         (list_all is_finite logits \<longrightarrow>
            (\<exists>x. confidence_pct q = Finite x \<and> 0 \<le> x \<and> x \<le> 100)))) \<and>
   (np_argmax probs = Inr k \<and> 2 \<le> k \<longrightarrow>
      decision_from_probs probs = Inl (IndexError ''list index out of range'')) \<and>
   (predict_image_body ext s' img' = Inl e \<longrightarrow>
      predict_image ext (Some s') img' = Inl (HTTPException 500 ''Prediction error: '' (Some e)))"
proof (intro conjI impI)
  assume a: "predict_main ext sess upl = Inr r"
  let ?p = "pm_prediction r"
  from predict_main_ok [OF a] obtain s where s: "sess = Some s"
    and c: "fst (classify ext s upl) = Inr ?p" and f: "is_finite (confidence ?p)"
    by blast
  from classify_ok [OF c] obtain img t name out c where
    io: "image_open ext (contents upl) = Inr img"
    and pr: "preprocess_image ext img MODEL_INPUT_SIZE = Inr t"
    and nm: "py_index (get_inputs s) 0 = Inr name" and rn: "run s name t = Inr out"
    and po: "postprocess_output out = Inr (class_index ?p, c)"
    and cf: "confidence ?p = round_score c 4" and lb: "label ?p = get_class_name (class_index ?p)"
    by blast
  from f cf have "is_finite (round_score c 4)" by simp
  from postprocess_output_Finite [OF po this] obtain x where
    x: "c = Finite x" "np_max (concat out) = Inr (Finite x)"
      "np_argmax (concat out) = Inr (nat (class_index ?p))" "0 \<le> class_index ?p"
      "class_index ?p < int (length (concat out))"
      "concat out ! nat (class_index ?p) = Finite x"
      "\<forall>y\<in>set (concat out). score_le y (Finite x)"
    by blast
  have cx: "confidence ?p = Finite (py_round x 4)" using cf x(1) by simp
  have bd: "0 \<le> x \<and> x \<le> 1 \<longrightarrow> 0 \<le> py_round x 4 \<and> py_round x 4 \<le> 1"
    using py_round_unit [of x] by simp
  have lc: "label ?p =
           (if class_index ?p = 0 then ''front_vehicle''
            else if class_index ?p = 1 then ''rear_vehicle'' else ''unknown'')"
    using lb by (simp only: get_class_name_cases)
  from s io pr nm rn x(2-7) cx bd lc
  show "\<exists>s img t name out x.
         sess = Some s \<and> image_open ext (contents upl) = Inr img \<and>
         preprocess_image ext img MODEL_INPUT_SIZE = Inr t \<and>
         py_index (get_inputs s) 0 = Inr name \<and> run s name t = Inr out \<and>
         np_max (concat out) = Inr (Finite x) \<and>
         np_argmax (concat out) = Inr (nat (class_index ?p)) \<and>
         0 \<le> class_index ?p \<and>
         class_index ?p < int (length (concat out)) \<and>
         concat out ! nat (class_index ?p) = Finite x \<and>
         (\<forall>y\<in>set (concat out). score_le y (Finite x)) \<and>
         confidence ?p = Finite (py_round x 4) \<and>
         (0 \<le> x \<and> x \<le> 1 \<longrightarrow> 0 \<le> py_round x 4 \<and> py_round x 4 \<le> 1) \<and>
         label ?p =
           (if class_index ?p = 0 then ''front_vehicle''
            else if class_index ?p = 1 then ''rear_vehicle''
            else ''unknown'')"
    by blast
next
  assume a: "predict_image ext ort_session img' = Inr q"
  from predict_image_ok [OF a] obtain s t name logits rows where
    f: "ort_session = Some s" "preprocess_image_scripts ext img' = Inr t"
      "py_index (get_inputs s) 0 = Inr name" "run s name t = Inr (logits # rows)"
      "softmax_decision logits = Inr q"
    by blast
  from f(5) have "predicted_class q \<in> set CONFIG_class_names"
    by (auto simp: softmax_decision_def split: sum.splits dest: decision_from_probs_class)
  moreover have "list_all is_finite logits \<longrightarrow>
            (\<exists>x. confidence_pct q = Finite x \<and> 0 \<le> x \<and> x \<le> 100)"
    using softmax_decision_finite [OF f(5)] by blast
  ultimately show "\<exists>s t name logits rows.
         ort_session = Some s \<and> preprocess_image_scripts ext img' = Inr t \<and>
         py_index (get_inputs s) 0 = Inr name \<and> run s name t = Inr (logits # rows) \<and>
         predicted_class q \<in> set CONFIG_class_names \<and>
         (list_all is_finite logits \<longrightarrow>
            (\<exists>x. confidence_pct q = Finite x \<and> 0 \<le> x \<and> x \<le> 100))"
    using f by blast
next
  assume a: "np_argmax probs = Inr k \<and> 2 \<le> k"
  from a have "np_argmax probs = Inr k" and "2 \<le> k" by simp_all
  then show "decision_from_probs probs = Inl (IndexError ''list index out of range'')"
    by (rule decision_from_probs_out_of_range)
next
  assume "predict_image_body ext s' img' = Inl e"
  then show "predict_image ext (Some s') img' =
      Inl (HTTPException 500 ''Prediction error: '' (Some e))"
    by (simp add: predict_image_def)
qed

lemma ex_predict_main_unknown:
  "predict_main ex_extern (Some (ex_session [[1 / 10, 1 / 5, 7 / 10]])) (ex_upload ''car.png'' ''ok'') =
     Inr \<lparr>pm_success = True,
          pm_prediction = \<lparr>label = ''unknown'', class_index = 2, confidence = Finite (7 / 10)\<rparr>,
          pm_filename = ''car.png''\<rparr>"
  by (simp add: predict_main_def classify_def ex_extern_def ex_upload_def ex_session_def
      ex_session_scores_def preprocess_image_def MODEL_INPUT_SIZE_def py_index_def
      postprocess_output_def get_class_name_def py_round_def score_max_def)

lemma ex_predict_image_tie:
  "predict_image ex_extern (Some (ex_session [[0, 0]])) img =
     Inr \<lparr>predicted_class = ''front'', confidence_pct = Finite 50,
          probabilities = [(''front'', Finite 50), (''rear'', Finite 50)]\<rparr>"
  by (simp add: predict_image_def predict_image_body_def ex_extern_def ex_session_def
      ex_session_scores_def preprocess_image_scripts_def py_index_def softmax_decision_def
      decision_from_probs_def softmax_scores_def score_sum_def score_max_def Let_def
      CONFIG_class_names_def py_round_def upt_rec)

lemma ex_predict_image_body_empty:
  "predict_image_body ex_extern (ex_session [[]]) img =
     Inl (ValueError ''zero-size array to reduction operation maximum which has no identity'')"
  by (simp add: predict_image_body_def ex_extern_def ex_session_def ex_session_scores_def
      preprocess_image_scripts_def py_index_def softmax_decision_def)

text \<open>
  Three raw scores with the largest last; two equal logits; three probabilities with the
  largest last; a session that returns an empty row.
\<close>

theorem decision_layer_outputs_witness:
  "predict_main ex_extern (Some (ex_session [[1 / 10, 1 / 5, 7 / 10]])) (ex_upload ''car.png'' ''ok'') =
     Inr \<lparr>pm_success = True,
          pm_prediction = \<lparr>label = ''unknown'', class_index = 2, confidence = Finite (7 / 10)\<rparr>,
          pm_filename = ''car.png''\<rparr> \<and>
   predict_image ex_extern (Some (ex_session [[0, 0]])) (Image ''RGB'' 1 1 [0, 0, 0]) =
     Inr \<lparr>predicted_class = ''front'', confidence_pct = Finite 50,
          probabilities = [(''front'', Finite 50), (''rear'', Finite 50)]\<rparr> \<and>
   ''front'' \<in> set CONFIG_class_names \<and>
   np_argmax [Finite (1 / 5), Finite (1 / 5), Finite (3 / 5)] = Inr 2 \<and>
   decision_from_probs [Finite (1 / 5), Finite (1 / 5), Finite (3 / 5)] =
     Inl (IndexError ''list index out of range'') \<and>
   predict_image ex_extern (Some (ex_session [[]])) (Image ''RGB'' 1 1 [0, 0, 0]) =
     Inl (HTTPException 500 ''Prediction error: ''
            (Some (ValueError
               ''zero-size array to reduction operation maximum which has no identity'')))"
proof -
  let ?r = "\<lparr>pm_success = True,
          pm_prediction = \<lparr>label = ''unknown'', class_index = 2, confidence = Finite (7 / 10)\<rparr>,
          pm_filename = ''car.png''\<rparr>"
  let ?q = "\<lparr>predicted_class = ''front'', confidence_pct = Finite 50,
          probabilities = [(''front'', Finite 50), (''rear'', Finite 50)]\<rparr>"
  let ?img = "Image ''RGB'' 1 1 [0, 0, 0]"
  let ?probs = "[Finite (1 / 5), Finite (1 / 5), Finite (3 / 5)]"
  let ?e = "ValueError ''zero-size array to reduction operation maximum which has no identity''"
  have h3: "np_argmax ?probs = Inr 2 \<and> (2::nat) \<le> 2"
    by (simp add: score_max_def)
  note t = decision_layer_outputs
    [where ext = ex_extern and sess = "Some (ex_session [[1 / 10, 1 / 5, 7 / 10]])"
       and upl = "ex_upload ''car.png'' ''ok''" and r = ?r
       and ort_session = "Some (ex_session [[0, 0]])" and img' = ?img and q = ?q
       and probs = ?probs and k = 2 and s' = "ex_session [[]]" and e = ?e]
  from t h3 have "decision_from_probs ?probs = Inl (IndexError ''list index out of range'')"
    by blast
  moreover from t ex_predict_image_body_empty [of ?img]
  have "predict_image ex_extern (Some (ex_session [[]])) ?img =
      Inl (HTTPException 500 ''Prediction error: '' (Some ?e))"
    by blast
  moreover from t ex_predict_image_tie [of ?img]
  have "predicted_class ?q \<in> set CONFIG_class_names"
    by blast
  ultimately show ?thesis
    using ex_predict_main_unknown ex_predict_image_tie [of ?img] h3 by simp
qed

text \<open>
  Claim C6 as stated fails: on two equal logits, \<^verbatim>\<open>predict_image\<close> of
  \<^verbatim>\<open>src/scripts/app.py\<close> returns the confidence 50, a percentage, which is not in
  \<open>[0, 1]\<close>.
\<close>

theorem percent_confidence_counterexample:
  "predict_image ex_extern (Some (ex_session [[0, 0]])) (Image ''RGB'' 1 1 [0, 0, 0]) =
     Inr \<lparr>predicted_class = ''front'', confidence_pct = Finite 50,
          probabilities = [(''front'', Finite 50), (''rear'', Finite 50)]\<rparr> \<and>
   \<not> (50 :: real) \<le> 1"
  by (simp add: ex_predict_image_tie)

subsection \<open>The logits 2.0 and 0.5\<close>

lemma exp_neg_three_halves_bounds:
  "(22313 / 100000 :: real) < exp (- (3 / 2)) \<and> exp (- (3 / 2)) < (22314 / 100000 :: real)"
proof -
  obtain t :: real where t: "\<bar>t\<bar> \<le> \<bar>- (3 / 2) :: real\<bar>"
    and e: "exp (- (3 / 2) :: real) =
              (\<Sum>m<14. ((- (3 / 2)) ^ m) / fact m) + (exp t / fact 14) * (- (3 / 2)) ^ 14"
    using Maclaurin_exp_le [of "- (3 / 2)" 14] by blast
  have "t \<le> 2" using t by simp
  then have "exp t \<le> exp 2" by simp
  also have "exp (2::real) = exp 1 * exp 1" by (simp flip: exp_add)
  also have "\<dots> \<le> 3 * 3" by (intro mult_mono exp_le) simp_all
  finally have ub: "exp t \<le> 9" by simp
  have lb: "0 \<le> exp t" by simp
  have sv: "(\<Sum>m<14::nat. ((- (3 / 2)) ^ m) / fact m :: real) = 46840579309 / 209924915200"
    by (simp add: lessThan_nat_numeral lessThan_Suc fact_numeral power_divide)
  have r: "(exp t / fact 14) * (- (3 / 2)) ^ 14 = exp t * (4782969 / 1428329123020800)"
    by (simp add: fact_numeral power_divide)
  have e': "exp (- (3 / 2) :: real) =
              46840579309 / 209924915200 + exp t * (4782969 / 1428329123020800)"
    using e unfolding sv r .
  show ?thesis unfolding e' using ub lb by linarith
qed

lemma softmax_example:
  "softmax [2, 1 / 2] 2 = [1 / (1 + exp (- (3 / 2))), exp (- (3 / 2)) / (1 + exp (- (3 / 2)))]"
  by (simp add: softmax_def Let_def)

lemma softmax_example_bounds:
  fixes q :: real
  assumes "22313 / 100000 < q" and "q < 22314 / 100000"
  shows "81755 / 100000 < 1 / (1 + q)" and "1 / (1 + q) < 81765 / 100000"
    and "18235 / 100000 < q / (1 + q)" and "q / (1 + q) < 18245 / 100000"
  using assms by (simp_all add: field_simps)

lemma softmax_decision_example:
  "softmax_decision [Finite 2, Finite (1 / 2)] =
     Inr \<lparr>predicted_class = ''front'', confidence_pct = Finite (8176 / 100),
          probabilities = [(''front'', Finite (8176 / 100)), (''rear'', Finite (1824 / 100))]\<rparr>"
proof -
  define q :: real where "q = exp (- (3 / 2))"
  have qb: "22313 / 100000 < q" "q < 22314 / 100000"
    using exp_neg_three_halves_bounds by (simp_all add: q_def)
  note b = softmax_example_bounds [OF qb]
  have mx: "np_max [Finite 2, Finite (1 / 2)] = Inr (Finite 2)"
    by (simp add: score_max_def)
  have "softmax_scores (map Finite [2, 1 / 2]) (Finite 2) = map Finite (softmax [2, 1 / 2] 2)"
    by (rule softmax_scores_finite) simp
  then have sm: "softmax_scores [Finite 2, Finite (1 / 2)] (Finite 2) =
      [Finite (1 / (1 + q)), Finite (q / (1 + q))]"
    by (simp add: softmax_example q_def)
  have gt: "q / (1 + q) < 1 / (1 + q)" using b by linarith
  have am: "np_argmax [Finite (1 / (1 + q)), Finite (q / (1 + q))] = Inr 0"
    using gt by (simp add: score_max_def)
  have r0: "py_round (1 / (1 + q) * 100) 2 = 8176 / 100"
    using py_round_exact [of 8176 "1 / (1 + q) * 100" 2] b by simp
  have r1: "py_round (q / (1 + q) * 100) 2 = 1824 / 100"
    using py_round_exact [of 1824 "q / (1 + q) * 100" 2] b by simp
  show ?thesis
    unfolding softmax_decision_def mx sum.case sm decision_from_probs_def am
    using r0 r1 by (simp add: py_index_def CONFIG_class_names_def upt_rec)
qed

text \<open>
  Claim C8, as amended. On the logits \<open>[2.0, 0.5]\<close> the softmax probability of \<open>front\<close> is
  0.8176 to four decimals, and \<^verbatim>\<open>predict_image\<close> returns the label \<open>front\<close> with the
  confidence 81.76, a percentage rounded to two decimals, and the probabilities 81.76 and
  18.24.
\<close>

theorem softmax_example_decision:
  "predict_image ex_extern (Some (ex_session [[2, 1 / 2]])) img =
     Inr \<lparr>predicted_class = ''front'', confidence_pct = Finite (8176 / 100),
          probabilities = [(''front'', Finite (8176 / 100)), (''rear'', Finite (1824 / 100))]\<rparr> \<and>
   \<bar>softmax [2, 1 / 2] 2 ! 0 - 8176 / 10000\<bar> < 1 / 10000"
proof -
  define q :: real where "q = exp (- (3 / 2))"
  have qb: "22313 / 100000 < q" "q < 22314 / 100000"
    using exp_neg_three_halves_bounds by (simp_all add: q_def)
  note b = softmax_example_bounds [OF qb]
  define p where "p = softmax [2, 1 / 2] 2 ! 0"
  have "p = 1 / (1 + q)" by (simp add: p_def softmax_example q_def)
  with b have "81755 / 100000 < p" "p < 81765 / 100000" by simp_all
  then have "\<bar>p - 8176 / 10000\<bar> < 1 / 10000" by linarith
  then have "\<bar>softmax [2, 1 / 2] 2 ! 0 - 8176 / 10000\<bar> < 1 / 10000"
    unfolding p_def .
  moreover have "predict_image ex_extern (Some (ex_session [[2, 1 / 2]])) img =
      softmax_decision [Finite 2, Finite (1 / 2)]"
    by (simp add: predict_image_def predict_image_body_def ex_extern_def ex_session_def
        ex_session_scores_def preprocess_image_scripts_def py_index_def softmax_decision_example)
  ultimately show ?thesis by (simp add: softmax_decision_example)
qed

text \<open>
  Claim C8 as stated fails: the confidence returned for the logits \<open>[2.0, 0.5]\<close> is 81.76,
  which is not near 0.8176.
\<close>

theorem softmax_confidence_percent_counterexample:
  "softmax_decision [Finite 2, Finite (1 / 2)] =
     Inr \<lparr>predicted_class = ''front'', confidence_pct = Finite (8176 / 100),
          probabilities = [(''front'', Finite (8176 / 100)), (''rear'', Finite (1824 / 100))]\<rparr> \<and>
   \<not> \<bar>8176 / 100 - 8176 / 10000 :: real\<bar> \<le> 1 / 100"
  by (simp add: softmax_decision_example)

end
